theory Spec2Isabelle
  imports Main
begin

section \<open>Transactional entity mutations with domain events\<close>

text \<open>
  The repository consists of one abstract class,
  \<^verbatim>\<open>AbstractTypeOrmDomainMutationEventService<EN, D>\<close>, with the three operations
  \<^verbatim>\<open>create\<close>, \<^verbatim>\<open>update\<close> and \<^verbatim>\<open>delete\<close>.  Each of them hands a work function to
  \<^verbatim>\<open>transactionService.transaction\<close>; the work function asks a hook of the subclass for
  an entity and an event, builds an event publisher for the query runner, publishes the event
  and saves or removes the entity.

  Everything the class talks to is an external collaborator.  The embedding therefore keeps
  the collaborators as parameters: each one is a function on a world \<open>'w\<close> (the database, the
  event bus, ...) that returns either an error (\<open>Inl\<close>, a rejected promise or a thrown
  exception) or a value (\<open>Inr\<close>), together with the new world.  An asynchronous function is a
  state transformer with an error result, \<^verbatim>\<open>await\<close> is its sequencing, and every call that
  the class makes is appended, with its outcome, to a log of calls.
\<close>

subsection \<open>Data\<close>

text \<open>\<^verbatim>\<open>EntityAndEventInterface<EN>\<close>: the pair a hook returns.\<close>

record ('en, 'ev) entity_and_event =
  entity :: 'en
  event :: 'ev

text \<open>
  One entry of the call log: the collaborator that was called, its arguments and what it
  returned.  The type parameters are the query runner \<open>'qr\<close>, the event publisher \<open>'pub\<close>,
  the input data \<open>'d\<close>, the entity \<open>'en\<close>, the event \<open>'ev\<close> and the error \<open>'err\<close>.
  \<open>Acquire\<close>, \<open>Commit\<close> and \<open>Rollback\<close> are the steps of the transaction manager.
\<close>

datatype ('qr, 'pub, 'd, 'en, 'ev, 'err) call =
    GetEntityForCreateAndEvent 'qr 'd "'err + ('en, 'ev) entity_and_event"
  | GetEntityForUpdateAndEvent 'qr string 'd "'err + ('en, 'ev) entity_and_event"
  | GetEntityForDeleteAndEvent 'qr string "'err + ('en, 'ev) entity_and_event"
  | FactoryCreate 'qr "'err + 'pub"
  | Publish 'pub 'ev "'err + unit"
  | Save 'qr 'en "'err + 'en"
  | Remove 'qr 'en "'err + 'en"
  | ConsoleLog 'en
  | Acquire "'err + 'qr"
  | Commit 'qr "'err + unit"
  | Rollback 'qr "'err + unit"

text \<open>
  The state an operation runs in: the log of calls made so far, the rejections of promises
  that nobody awaits, and the world of the collaborators.
\<close>

record ('c, 'err, 'w) state =
  calls :: "'c list"
  unhandled :: "'err list"
  world :: 'w

type_synonym ('s, 'err, 'a) promise = "'s \<Rightarrow> ('err + 'a) \<times> 's"

type_synonym ('qr, 'pub, 'd, 'en, 'ev, 'err, 'w) st =
  "(('qr, 'pub, 'd, 'en, 'ev, 'err) call, 'err, 'w) state"

text \<open>
  The collaborators of one service instance: the two constructor arguments
  (\<^verbatim>\<open>transactionService\<close>, \<^verbatim>\<open>eventPublisherFactory\<close>), the publisher's \<^verbatim>\<open>publish\<close>, the
  entity manager's \<^verbatim>\<open>save\<close> and \<^verbatim>\<open>remove\<close> (\<^verbatim>\<open>queryRunner.manager\<close>), and the three abstract
  hooks that a subclass supplies.  \<^verbatim>\<open>eventPublisherFactory.create\<close> is synchronous in the
  source; inside an \<^verbatim>\<open>async\<close> function an exception it throws is a rejection like any other.
\<close>

record ('qr, 'pub, 'd, 'en, 'ev, 'err, 'w) service =
  transactionService ::
    "('qr \<Rightarrow> (('qr, 'pub, 'd, 'en, 'ev, 'err, 'w) st, 'err, 'en) promise)
      \<Rightarrow> (('qr, 'pub, 'd, 'en, 'ev, 'err, 'w) st, 'err, 'en) promise"
  eventPublisherFactory :: "'qr \<Rightarrow> ('w, 'err, 'pub) promise"
  publish :: "'pub \<Rightarrow> 'ev \<Rightarrow> ('w, 'err, unit) promise"
  save :: "'qr \<Rightarrow> 'en \<Rightarrow> ('w, 'err, 'en) promise"
  remove :: "'qr \<Rightarrow> 'en \<Rightarrow> ('w, 'err, 'en) promise"
  getEntityForCreateAndEvent ::
    "'qr \<Rightarrow> 'd \<Rightarrow> ('w, 'err, ('en, 'ev) entity_and_event) promise"
  getEntityForUpdateAndEvent ::
    "'qr \<Rightarrow> string \<Rightarrow> 'd \<Rightarrow> ('w, 'err, ('en, 'ev) entity_and_event) promise"
  getEntityForDeleteAndEvent ::
    "'qr \<Rightarrow> string \<Rightarrow> ('w, 'err, ('en, 'ev) entity_and_event) promise"

subsection \<open>Asynchronous sequencing\<close>

text \<open>
  \<open>invoke mk f\<close> calls the collaborator \<open>f\<close> on the current world and logs the call; \<open>mk\<close>
  builds the log entry from the outcome.
\<close>

definition invoke ::
  "(('err + 'a) \<Rightarrow> 'c) \<Rightarrow> ('w, 'err, 'a) promise \<Rightarrow> (('c, 'err, 'w) state, 'err, 'a) promise"
where
  "invoke mk f s =
     (case f (world s) of
        (r, w') \<Rightarrow> (r, s\<lparr>calls := calls s @ [mk r], world := w'\<rparr>))"

text \<open>
  \<^verbatim>\<open>const x = await m; k(x)\<close> inside an \<^verbatim>\<open>async\<close> function: a rejection of \<open>m\<close> ends the
  function with that rejection, and the rest is not run.
\<close>

definition await ::
  "('s, 'err, 'a) promise \<Rightarrow> ('a \<Rightarrow> ('s, 'err, 'b) promise) \<Rightarrow> ('s, 'err, 'b) promise"
where
  "await m k s = (case m s of (Inl e, s') \<Rightarrow> (Inl e, s') | (Inr v, s') \<Rightarrow> k v s')"

definition resolve :: "'a \<Rightarrow> ('s, 'err, 'a) promise" where
  "resolve v s = (Inr v, s)"

text \<open>\<^verbatim>\<open>console.log(x)\<close>: one more entry of the log; it does not fail.\<close>

definition console_log ::
  "'en \<Rightarrow> (('qr, 'pub, 'd, 'en, 'ev, 'err, 'w) st, 'err, unit) promise"
where
  "console_log x s = (Inr (), s\<lparr>calls := calls s @ [ConsoleLog x]\<rparr>)"

subsection \<open>The transaction manager\<close>

text \<open>
  The steps of a transaction manager: acquiring a query runner for a new unit of work,
  committing it and rolling it back.
\<close>

record ('qr, 'err, 'w) manager =
  acquire :: "('w, 'err, 'qr) promise"
  commit :: "'qr \<Rightarrow> ('w, 'err, unit) promise"
  rollback :: "'qr \<Rightarrow> ('w, 'err, unit) promise"

text \<open>
  Modelled from the spec: the transaction manager is the external package
  \<^verbatim>\<open>transaction-typeorm\<close>, of which the source holds only the import of its interface.  The
  specification gives its contract: \<^verbatim>\<open>transaction(work)\<close> executes \<open>work\<close> within a new unit
  of work, commits if \<open>work\<close> resolves, rolls back if it rejects, and propagates the
  resolution or rejection to the caller; a failure of acquisition, commit or rollback itself
  is propagated unchanged.  The operations below do not depend on it: they call the
  \<open>transactionService\<close> of their service, whatever it is.
\<close>

definition transaction ::
  "('qr, 'err, 'w) manager
    \<Rightarrow> ('qr \<Rightarrow> (('qr, 'pub, 'd, 'en, 'ev, 'err, 'w) st, 'err, 'a) promise)
    \<Rightarrow> (('qr, 'pub, 'd, 'en, 'ev, 'err, 'w) st, 'err, 'a) promise"
where
  "transaction tm work s =
     (case invoke Acquire (acquire tm) s of
        (Inl e, s1) \<Rightarrow> (Inl e, s1)
      | (Inr qr, s1) \<Rightarrow>
          (case work qr s1 of
             (Inr v, s2) \<Rightarrow>
               (case invoke (Commit qr) (commit tm qr) s2 of
                  (Inl e, s3) \<Rightarrow> (Inl e, s3)
                | (Inr _, s3) \<Rightarrow> (Inr v, s3))
           | (Inl e, s2) \<Rightarrow>
               (case invoke (Rollback qr) (rollback tm qr) s2 of
                  (Inl e', s3) \<Rightarrow> (Inl e', s3)
                | (Inr _, s3) \<Rightarrow> (Inl e, s3))))"

subsection \<open>The three operations\<close>

text \<open>The work function that \<^verbatim>\<open>create\<close> passes to the transaction (source lines 36 to 48).\<close>

definition create_work ::
  "('qr, 'pub, 'd, 'en, 'ev, 'err, 'w) service \<Rightarrow> 'd \<Rightarrow> 'qr
    \<Rightarrow> (('qr, 'pub, 'd, 'en, 'ev, 'err, 'w) st, 'err, 'en) promise"
where
  "create_work svc data queryRunner =
     await (invoke (GetEntityForCreateAndEvent queryRunner data)
              (getEntityForCreateAndEvent svc queryRunner data)) (\<lambda>ee.
     await (invoke (FactoryCreate queryRunner)
              (eventPublisherFactory svc queryRunner)) (\<lambda>eventPublisher.
     await (invoke (Publish eventPublisher (event ee))
              (publish svc eventPublisher (event ee))) (\<lambda>_.
     invoke (Save queryRunner (entity ee)) (save svc queryRunner (entity ee)))))"

text \<open>\<^verbatim>\<open>create\<close> awaits the transaction and returns its result.\<close>

definition create ::
  "('qr, 'pub, 'd, 'en, 'ev, 'err, 'w) service \<Rightarrow> 'd
    \<Rightarrow> (('qr, 'pub, 'd, 'en, 'ev, 'err, 'w) st, 'err, 'en) promise"
where
  "create svc data =
     await (transactionService svc (create_work svc data)) (\<lambda>result. resolve result)"

text \<open>The work function of \<^verbatim>\<open>update\<close> (source lines 64 to 81).\<close>

definition update_work ::
  "('qr, 'pub, 'd, 'en, 'ev, 'err, 'w) service \<Rightarrow> string \<Rightarrow> 'd \<Rightarrow> 'qr
    \<Rightarrow> (('qr, 'pub, 'd, 'en, 'ev, 'err, 'w) st, 'err, 'en) promise"
where
  "update_work svc ident data queryRunner =
     await (invoke (GetEntityForUpdateAndEvent queryRunner ident data)
              (getEntityForUpdateAndEvent svc queryRunner ident data)) (\<lambda>ee.
     await (invoke (FactoryCreate queryRunner)
              (eventPublisherFactory svc queryRunner)) (\<lambda>eventPublisher.
     await (invoke (Save queryRunner (entity ee))
              (save svc queryRunner (entity ee))) (\<lambda>upd.
     await (console_log upd) (\<lambda>_.
     await (invoke (Publish eventPublisher (event ee))
              (publish svc eventPublisher (event ee))) (\<lambda>_.
     resolve upd)))))"

definition update ::
  "('qr, 'pub, 'd, 'en, 'ev, 'err, 'w) service \<Rightarrow> string \<Rightarrow> 'd
    \<Rightarrow> (('qr, 'pub, 'd, 'en, 'ev, 'err, 'w) st, 'err, 'en) promise"
where
  "update svc ident data =
     await (transactionService svc (update_work svc ident data)) (\<lambda>result. resolve result)"

text \<open>The work function of \<^verbatim>\<open>delete\<close> (source lines 93 to 105).\<close>

definition delete_work ::
  "('qr, 'pub, 'd, 'en, 'ev, 'err, 'w) service \<Rightarrow> string \<Rightarrow> 'qr
    \<Rightarrow> (('qr, 'pub, 'd, 'en, 'ev, 'err, 'w) st, 'err, 'en) promise"
where
  "delete_work svc ident queryRunner =
     await (invoke (GetEntityForDeleteAndEvent queryRunner ident)
              (getEntityForDeleteAndEvent svc queryRunner ident)) (\<lambda>ee.
     await (invoke (FactoryCreate queryRunner)
              (eventPublisherFactory svc queryRunner)) (\<lambda>eventPublisher.
     await (invoke (Publish eventPublisher (event ee))
              (publish svc eventPublisher (event ee))) (\<lambda>_.
     invoke (Remove queryRunner (entity ee)) (remove svc queryRunner (entity ee)))))"

text \<open>
  \<^verbatim>\<open>delete\<close> starts the transaction and neither awaits nor returns its promise: the body of
  the \<^verbatim>\<open>async\<close> function ends with no value.  The promise of the transaction is left
  without a handler, so a rejection of it is an unhandled rejection.  The state returned is
  the one reached when the detached transaction has settled; when that happens, relative to
  the promise of \<^verbatim>\<open>delete\<close>, is not part of the model.
\<close>

definition delete ::
  "('qr, 'pub, 'd, 'en, 'ev, 'err, 'w) service \<Rightarrow> string
    \<Rightarrow> (('qr, 'pub, 'd, 'en, 'ev, 'err, 'w) st, 'err, unit) promise"
where
  "delete svc ident s =
     (case transactionService svc (delete_work svc ident) s of
        (Inl e, s') \<Rightarrow> (Inr (), s'\<lparr>unhandled := unhandled s' @ [e]\<rparr>)
      | (Inr _, s') \<Rightarrow> (Inr (), s'))"

subsection \<open>Reading the call log\<close>

text \<open>The calls that running \<open>p\<close> from \<open>s\<close> adds to the log.\<close>

definition emitted ::
  "(('c, 'err, 'w) state \<Rightarrow> 'r \<times> ('c, 'err, 'w) state) \<Rightarrow> ('c, 'err, 'w) state \<Rightarrow> 'c list"
where
  "emitted p s = drop (length (calls s)) (calls (snd (p s)))"

definition rejection :: "'err + 'a \<Rightarrow> 'err option" where
  "rejection r = (case r of Inl e \<Rightarrow> Some e | Inr _ \<Rightarrow> None)"

text \<open>The error a logged call ended with, if it failed.\<close>

fun failure :: "('qr, 'pub, 'd, 'en, 'ev, 'err) call \<Rightarrow> 'err option" where
  "failure (GetEntityForCreateAndEvent _ _ r) = rejection r"
| "failure (GetEntityForUpdateAndEvent _ _ _ r) = rejection r"
| "failure (GetEntityForDeleteAndEvent _ _ r) = rejection r"
| "failure (FactoryCreate _ r) = rejection r"
| "failure (Publish _ _ r) = rejection r"
| "failure (Save _ _ r) = rejection r"
| "failure (Remove _ _ r) = rejection r"
| "failure (ConsoleLog _) = None"
| "failure (Acquire r) = rejection r"
| "failure (Commit _ r) = rejection r"
| "failure (Rollback _ r) = rejection r"

definition succeeded :: "('qr, 'pub, 'd, 'en, 'ev, 'err) call \<Rightarrow> bool" where
  "succeeded c = (failure c = None)"

definition failures :: "('qr, 'pub, 'd, 'en, 'ev, 'err) call list \<Rightarrow> 'err list" where
  "failures cs = List.map_filter failure cs"

fun is_publish :: "('qr, 'pub, 'd, 'en, 'ev, 'err) call \<Rightarrow> bool" where
  "is_publish (Publish _ _ _) = True"
| "is_publish _ = False"

fun is_save :: "('qr, 'pub, 'd, 'en, 'ev, 'err) call \<Rightarrow> bool" where
  "is_save (Save _ _ _) = True"
| "is_save _ = False"

fun is_remove :: "('qr, 'pub, 'd, 'en, 'ev, 'err) call \<Rightarrow> bool" where
  "is_remove (Remove _ _ _) = True"
| "is_remove _ = False"

fun is_factory :: "('qr, 'pub, 'd, 'en, 'ev, 'err) call \<Rightarrow> bool" where
  "is_factory (FactoryCreate _ _) = True"
| "is_factory _ = False"

fun is_log :: "('qr, 'pub, 'd, 'en, 'ev, 'err) call \<Rightarrow> bool" where
  "is_log (ConsoleLog _) = True"
| "is_log _ = False"

fun is_acquire :: "('qr, 'pub, 'd, 'en, 'ev, 'err) call \<Rightarrow> bool" where
  "is_acquire (Acquire _) = True"
| "is_acquire _ = False"

fun is_commit :: "('qr, 'pub, 'd, 'en, 'ev, 'err) call \<Rightarrow> bool" where
  "is_commit (Commit _ _) = True"
| "is_commit _ = False"

fun is_rollback :: "('qr, 'pub, 'd, 'en, 'ev, 'err) call \<Rightarrow> bool" where
  "is_rollback (Rollback _ _) = True"
| "is_rollback _ = False"

definition count_calls :: "('c \<Rightarrow> bool) \<Rightarrow> 'c list \<Rightarrow> nat" where
  "count_calls P cs = length (filter P cs)"


definition published :: "('qr, 'pub, 'd, 'en, 'ev, 'err) call \<Rightarrow> bool" where
  "published c = (is_publish c \<and> succeeded c)"

definition persisted :: "('qr, 'pub, 'd, 'en, 'ev, 'err) call \<Rightarrow> bool" where
  "persisted c = ((is_save c \<or> is_remove c) \<and> succeeded c)"

text \<open>
  \<open>scoped h p cs\<close> reads the log \<open>cs\<close> from left to right, \<open>h\<close> being the query runner of
  the transaction that is open (if one is) and \<open>p\<close> the publisher that the factory made for
  it (if it did).  It holds when a transaction is only acquired while none is open, every
  hook, factory, save and remove call is made with the query runner of the open transaction,
  every publish call goes to the publisher made for that query runner, a commit or rollback
  closes the open transaction, and no transaction is left open at the end.
\<close>

fun scoped ::
  "'qr option \<Rightarrow> 'pub option \<Rightarrow> ('qr, 'pub, 'd, 'en, 'ev, 'err) call list \<Rightarrow> bool"
where
  "scoped h p [] = (h = None)"
| "scoped h p (Acquire r # cs) =
     (h = None \<and> scoped (case r of Inl _ \<Rightarrow> None | Inr qr \<Rightarrow> Some qr) None cs)"
| "scoped h p (GetEntityForCreateAndEvent qr _ _ # cs) = (h = Some qr \<and> scoped h p cs)"
| "scoped h p (GetEntityForUpdateAndEvent qr _ _ _ # cs) = (h = Some qr \<and> scoped h p cs)"
| "scoped h p (GetEntityForDeleteAndEvent qr _ _ # cs) = (h = Some qr \<and> scoped h p cs)"
| "scoped h p (FactoryCreate qr r # cs) =
     (h = Some qr \<and> scoped h (case r of Inl _ \<Rightarrow> p | Inr x \<Rightarrow> Some x) cs)"
| "scoped h p (Publish x _ _ # cs) = (h \<noteq> None \<and> p = Some x \<and> scoped h p cs)"
| "scoped h p (Save qr _ _ # cs) = (h = Some qr \<and> scoped h p cs)"
| "scoped h p (Remove qr _ _ # cs) = (h = Some qr \<and> scoped h p cs)"
| "scoped h p (ConsoleLog _ # cs) = scoped h p cs"
| "scoped h p (Commit qr _ # cs) = (h = Some qr \<and> scoped None None cs)"
| "scoped h p (Rollback qr _ # cs) = (h = Some qr \<and> scoped None None cs)"

text \<open>
  The log of one invocation is that of a single transaction when it is well scoped, the
  transaction manager was asked for a transaction exactly once, and a commit was attempted
  only after exactly one publish call and exactly one save or remove call had succeeded.
\<close>

definition one_transaction :: "('qr, 'pub, 'd, 'en, 'ev, 'err) call list \<Rightarrow> bool" where
  "one_transaction cs =
     (scoped None None cs \<and> count_calls is_acquire cs = 1 \<and>
      (list_ex is_commit cs \<longrightarrow>
         count_calls published cs = 1 \<and> count_calls persisted cs = 1))"

subsection \<open>A concrete service\<close>

text \<open>
  A small service to run the operations on: entities are pairs of an optional identifier and
  a name, the world is a table of rows together with the outbox of published events, and
  the query runner of a transaction is the snapshot of the world taken when it began, which
  a rollback restores.
\<close>

type_synonym demo_entity = "string option \<times> string"

type_synonym demo_world = "(string \<times> string) list \<times> string list"

definition demo_manager :: "(demo_world, string, demo_world) manager" where
  "demo_manager =
     \<lparr>acquire = (\<lambda>w. (Inr w, w)),
      commit = (\<lambda>qr w. (Inr (), w)),
      rollback = (\<lambda>qr w. (Inr (), qr))\<rparr>"

definition demo_save :: "demo_world \<Rightarrow> demo_entity \<Rightarrow> (demo_world, string, demo_entity) promise"
where
  "demo_save qr en w =
     (if snd en = ''dup'' then (Inl ''constraint violation'', w)
      else case fst en of
        None \<Rightarrow>
          (let i = replicate (Suc (length (fst w))) CHR ''1''
           in (Inr (Some i, snd en), (fst w @ [(i, snd en)], snd w)))
      | Some i \<Rightarrow>
          (Inr en, (map (\<lambda>row. if fst row = i then (i, snd en) else row) (fst w), snd w)))"

definition demo_remove :: "demo_world \<Rightarrow> demo_entity \<Rightarrow> (demo_world, string, demo_entity) promise"
where
  "demo_remove qr en w = (Inr en, (filter (\<lambda>row. Some (fst row) \<noteq> fst en) (fst w), snd w))"

definition demo_lookup ::
  "string \<Rightarrow> string \<Rightarrow> string
    \<Rightarrow> (demo_world, string, (demo_entity, string) entity_and_event) promise"
where
  "demo_lookup ident name ev w =
     (case map_of (fst w) ident of
        None \<Rightarrow> (Inl ''not found'', w)
      | Some _ \<Rightarrow> (Inr \<lparr>entity = (Some ident, name), event = ev\<rparr>, w))"

definition demo_service ::
  "(demo_world, nat, string, demo_entity, string, string, demo_world) service"
where
  "demo_service =
     \<lparr>transactionService = transaction demo_manager,
      eventPublisherFactory = (\<lambda>qr w. (Inr (length (snd qr)), w)),
      publish = (\<lambda>p ev w. (Inr (), (fst w, snd w @ [ev]))),
      save = demo_save,
      remove = demo_remove,
      getEntityForCreateAndEvent =
        (\<lambda>qr data w.
           if data = [] then (Inl ''invalid'', w)
           else (Inr \<lparr>entity = (None, data), event = ''created''\<rparr>, w)),
      getEntityForUpdateAndEvent = (\<lambda>qr ident data. demo_lookup ident data ''updated''),
      getEntityForDeleteAndEvent = (\<lambda>qr ident. demo_lookup ident [] ''deleted'')\<rparr>"

text \<open>The same service with an event bus that is down.\<close>

definition demo_bus_down ::
  "(demo_world, nat, string, demo_entity, string, string, demo_world) service"
where
  "demo_bus_down = demo_service\<lparr>publish := (\<lambda>p ev w. (Inl ''bus down'', w))\<rparr>"

text \<open>
  The same service under a transaction manager whose rollback fails.
\<close>

definition demo_rollback_fails ::
  "(demo_world, nat, string, demo_entity, string, string, demo_world) service"
where
  "demo_rollback_fails =
     demo_service\<lparr>transactionService :=
       transaction (demo_manager\<lparr>rollback := (\<lambda>qr w. (Inl ''rollback failed'', w))\<rparr>)\<rparr>"

definition demo_state ::
  "demo_world \<Rightarrow> (demo_world, nat, string, demo_entity, string, string, demo_world) st"
where
  "demo_state w = \<lparr>calls = [], unhandled = [], world = w\<rparr>"

section \<open>Runs of the operations\<close>

text \<open>
  The outcomes of a work function, and of an operation under the transaction manager of the
  specification, listed case by case: which collaborator failed first, what the log holds and
  what the caller receives.
\<close>

lemma await_resolve: "await m (\<lambda>r. resolve r) = m"
  by (rule ext) (simp add: await_def resolve_def split: prod.splits sum.splits)

lemma state_upd_eq:
  "(s\<lparr>calls := a, world := b\<rparr> = s\<lparr>calls := a', world := b'\<rparr>) = (a = a' \<and> b = b')"
  by (cases s) simp

lemma transaction_acquire_failed:
  assumes "acquire tm (world s) = (Inl e, w)"
  shows "emitted (transaction tm work) s = [Acquire (Inl e)]
           \<and> fst (transaction tm work s) = Inl e"
  using assms by (simp add: transaction_def invoke_def emitted_def)

lemma transaction_rolled_back:
  assumes "acquire tm (world s) = (Inr qr, w)"
    and "s1 = s\<lparr>calls := calls s @ [Acquire (Inr qr)], world := w\<rparr>"
    and "work qr s1 = (Inl e, s1\<lparr>calls := calls s1 @ ws, world := w'\<rparr>)"
  shows "\<exists>c. emitted (transaction tm work) s = Acquire (Inr qr) # ws @ [Rollback qr c]
           \<and> fst (transaction tm work s) = Inl (case c of Inl e' \<Rightarrow> e' | Inr _ \<Rightarrow> e)"
  using assms by (simp add: transaction_def invoke_def emitted_def split: prod.splits sum.splits)

lemma transaction_committed:
  assumes "acquire tm (world s) = (Inr qr, w)"
    and "s1 = s\<lparr>calls := calls s @ [Acquire (Inr qr)], world := w\<rparr>"
    and "work qr s1 = (Inr v, s1\<lparr>calls := calls s1 @ ws, world := w'\<rparr>)"
  shows "\<exists>c. emitted (transaction tm work) s = Acquire (Inr qr) # ws @ [Commit qr c]
           \<and> fst (transaction tm work s) = (case c of Inl e \<Rightarrow> Inl e | Inr _ \<Rightarrow> Inr v)"
  using assms by (simp add: transaction_def invoke_def emitted_def split: prod.splits sum.splits)

lemma create_work_run:
  "create_work svc data qr s =
    (case getEntityForCreateAndEvent svc qr data (world s) of
       (Inl e, w1) \<Rightarrow>
         (Inl e, s\<lparr>calls := calls s @
            [GetEntityForCreateAndEvent qr data (Inl e)],
            world := w1\<rparr>)
     | (Inr ee, w1) \<Rightarrow>
        (case eventPublisherFactory svc qr w1 of
           (Inl e, w2) \<Rightarrow>
             (Inl e, s\<lparr>calls := calls s @
                [GetEntityForCreateAndEvent qr data (Inr ee),
                 FactoryCreate qr (Inl e)],
                world := w2\<rparr>)
         | (Inr p, w2) \<Rightarrow>
            (case publish svc p (event ee) w2 of
               (Inl e, w3) \<Rightarrow>
                 (Inl e, s\<lparr>calls := calls s @
                    [GetEntityForCreateAndEvent qr data (Inr ee),
                     FactoryCreate qr (Inr p),
                     Publish p (event ee) (Inl e)],
                    world := w3\<rparr>)
             | (Inr u, w3) \<Rightarrow>
                (case save svc qr (entity ee) w3 of
                   (Inl e, w4) \<Rightarrow>
                     (Inl e, s\<lparr>calls := calls s @
                        [GetEntityForCreateAndEvent qr data (Inr ee),
                         FactoryCreate qr (Inr p),
                         Publish p (event ee) (Inr ()),
                         Save qr (entity ee) (Inl e)],
                        world := w4\<rparr>)
                 | (Inr v, w4) \<Rightarrow>
                     (Inr v, s\<lparr>calls := calls s @
                        [GetEntityForCreateAndEvent qr data (Inr ee),
                         FactoryCreate qr (Inr p),
                         Publish p (event ee) (Inr ()),
                         Save qr (entity ee) (Inr v)],
                        world := w4\<rparr>)))))"
  by (simp add: create_work_def invoke_def await_def split: prod.splits sum.splits)

lemma create_work_outcomes:
  "(\<exists>e w. create_work svc data qr s =
        (Inl e, s\<lparr>calls := calls s @
           [GetEntityForCreateAndEvent qr data (Inl e)],
           world := w\<rparr>))
   \<or> (\<exists>ee e w. create_work svc data qr s =
        (Inl e, s\<lparr>calls := calls s @
           [GetEntityForCreateAndEvent qr data (Inr ee),
            FactoryCreate qr (Inl e)],
           world := w\<rparr>))
   \<or> (\<exists>ee p e w. create_work svc data qr s =
        (Inl e, s\<lparr>calls := calls s @
           [GetEntityForCreateAndEvent qr data (Inr ee),
            FactoryCreate qr (Inr p),
            Publish p (event ee) (Inl e)],
           world := w\<rparr>))
   \<or> (\<exists>ee p e w. create_work svc data qr s =
        (Inl e, s\<lparr>calls := calls s @
           [GetEntityForCreateAndEvent qr data (Inr ee),
            FactoryCreate qr (Inr p),
            Publish p (event ee) (Inr ()),
            Save qr (entity ee) (Inl e)],
           world := w\<rparr>))
   \<or> (\<exists>ee p v w. create_work svc data qr s =
        (Inr v, s\<lparr>calls := calls s @
           [GetEntityForCreateAndEvent qr data (Inr ee),
            FactoryCreate qr (Inr p),
            Publish p (event ee) (Inr ()),
            Save qr (entity ee) (Inr v)],
           world := w\<rparr>))"
  by (simp add: create_work_run state_upd_eq split: prod.splits sum.splits)

lemma create_cases [consumes 1, case_names acquire_failed hook_failed factory_failed publish_failed save_failed completed]:
  assumes "transactionService svc = transaction tm"
  obtains
    e where
      "emitted (create svc data) s = [Acquire (Inl e)]"
      "fst (create svc data s) = Inl e"
  | qr e c where
      "emitted (create svc data) s =
         [Acquire (Inr qr),
          GetEntityForCreateAndEvent qr data (Inl e),
          Rollback qr c]"
      "fst (create svc data s) = Inl (case c of Inl e' \<Rightarrow> e' | Inr _ \<Rightarrow> e)"
  | qr ee e c where
      "emitted (create svc data) s =
         [Acquire (Inr qr),
          GetEntityForCreateAndEvent qr data (Inr ee),
          FactoryCreate qr (Inl e),
          Rollback qr c]"
      "fst (create svc data s) = Inl (case c of Inl e' \<Rightarrow> e' | Inr _ \<Rightarrow> e)"
  | qr ee p e c where
      "emitted (create svc data) s =
         [Acquire (Inr qr),
          GetEntityForCreateAndEvent qr data (Inr ee),
          FactoryCreate qr (Inr p),
          Publish p (event ee) (Inl e),
          Rollback qr c]"
      "fst (create svc data s) = Inl (case c of Inl e' \<Rightarrow> e' | Inr _ \<Rightarrow> e)"
  | qr ee p e c where
      "emitted (create svc data) s =
         [Acquire (Inr qr),
          GetEntityForCreateAndEvent qr data (Inr ee),
          FactoryCreate qr (Inr p),
          Publish p (event ee) (Inr ()),
          Save qr (entity ee) (Inl e),
          Rollback qr c]"
      "fst (create svc data s) = Inl (case c of Inl e' \<Rightarrow> e' | Inr _ \<Rightarrow> e)"
  | qr ee p v c where
      "emitted (create svc data) s =
         [Acquire (Inr qr),
          GetEntityForCreateAndEvent qr data (Inr ee),
          FactoryCreate qr (Inr p),
          Publish p (event ee) (Inr ()),
          Save qr (entity ee) (Inr v),
          Commit qr c]"
      "fst (create svc data s) = (case c of Inl e \<Rightarrow> Inl e | Inr _ \<Rightarrow> Inr v)"
proof -
  have run: "create svc data = transaction tm (create_work svc data)"
    by (simp add: create_def await_resolve assms)
  obtain a w where acq: "acquire tm (world s) = (a, w)"
    by (cases "acquire tm (world s)")
  show thesis
  proof (cases a)
    case (Inl e)
    with acq show thesis
      using transaction_acquire_failed [of tm s e w "create_work svc data"] that(1) by (simp add: run)
  next
    case (Inr qr)
    define s1 where "s1 = s\<lparr>calls := calls s @ [Acquire (Inr qr)], world := w\<rparr>"
    note acq' = acq [unfolded Inr]
    from create_work_outcomes [of svc data qr s1] show thesis
    proof (elim disjE exE)
      fix e w'
      assume "create_work svc data qr s1 =
         (Inl e, s1\<lparr>calls := calls s1 @
            [GetEntityForCreateAndEvent qr data (Inl e)],
            world := w'\<rparr>)"
      from transaction_rolled_back [where work = "create_work svc data", OF acq' s1_def this] show thesis
        using that(2) by (auto simp: run)
    next
      fix ee e w'
      assume "create_work svc data qr s1 =
         (Inl e, s1\<lparr>calls := calls s1 @
            [GetEntityForCreateAndEvent qr data (Inr ee),
             FactoryCreate qr (Inl e)],
            world := w'\<rparr>)"
      from transaction_rolled_back [where work = "create_work svc data", OF acq' s1_def this] show thesis
        using that(3) by (auto simp: run)
    next
      fix ee p e w'
      assume "create_work svc data qr s1 =
         (Inl e, s1\<lparr>calls := calls s1 @
            [GetEntityForCreateAndEvent qr data (Inr ee),
             FactoryCreate qr (Inr p),
             Publish p (event ee) (Inl e)],
            world := w'\<rparr>)"
      from transaction_rolled_back [where work = "create_work svc data", OF acq' s1_def this] show thesis
        using that(4) by (auto simp: run)
    next
      fix ee p e w'
      assume "create_work svc data qr s1 =
         (Inl e, s1\<lparr>calls := calls s1 @
            [GetEntityForCreateAndEvent qr data (Inr ee),
             FactoryCreate qr (Inr p),
             Publish p (event ee) (Inr ()),
             Save qr (entity ee) (Inl e)],
            world := w'\<rparr>)"
      from transaction_rolled_back [where work = "create_work svc data", OF acq' s1_def this] show thesis
        using that(5) by (auto simp: run)
    next
      fix ee p v w'
      assume "create_work svc data qr s1 =
         (Inr v, s1\<lparr>calls := calls s1 @
            [GetEntityForCreateAndEvent qr data (Inr ee),
             FactoryCreate qr (Inr p),
             Publish p (event ee) (Inr ()),
             Save qr (entity ee) (Inr v)],
            world := w'\<rparr>)"
      from transaction_committed [where work = "create_work svc data", OF acq' s1_def this] show thesis
        using that(6) by (auto simp: run)
    qed
  qed
qed

lemma update_work_run:
  "update_work svc ident data qr s =
    (case getEntityForUpdateAndEvent svc qr ident data (world s) of
       (Inl e, w1) \<Rightarrow>
         (Inl e, s\<lparr>calls := calls s @
            [GetEntityForUpdateAndEvent qr ident data (Inl e)],
            world := w1\<rparr>)
     | (Inr ee, w1) \<Rightarrow>
        (case eventPublisherFactory svc qr w1 of
           (Inl e, w2) \<Rightarrow>
             (Inl e, s\<lparr>calls := calls s @
                [GetEntityForUpdateAndEvent qr ident data (Inr ee),
                 FactoryCreate qr (Inl e)],
                world := w2\<rparr>)
         | (Inr p, w2) \<Rightarrow>
            (case save svc qr (entity ee) w2 of
               (Inl e, w3) \<Rightarrow>
                 (Inl e, s\<lparr>calls := calls s @
                    [GetEntityForUpdateAndEvent qr ident data (Inr ee),
                     FactoryCreate qr (Inr p),
                     Save qr (entity ee) (Inl e)],
                    world := w3\<rparr>)
             | (Inr v, w3) \<Rightarrow>
                (case publish svc p (event ee) w3 of
                   (Inl e, w4) \<Rightarrow>
                     (Inl e, s\<lparr>calls := calls s @
                        [GetEntityForUpdateAndEvent qr ident data (Inr ee),
                         FactoryCreate qr (Inr p),
                         Save qr (entity ee) (Inr v),
                         ConsoleLog v,
                         Publish p (event ee) (Inl e)],
                        world := w4\<rparr>)
                 | (Inr u, w4) \<Rightarrow>
                     (Inr v, s\<lparr>calls := calls s @
                        [GetEntityForUpdateAndEvent qr ident data (Inr ee),
                         FactoryCreate qr (Inr p),
                         Save qr (entity ee) (Inr v),
                         ConsoleLog v,
                         Publish p (event ee) (Inr ())],
                        world := w4\<rparr>)))))"
  by (simp add: update_work_def invoke_def await_def resolve_def console_log_def split: prod.splits sum.splits)

lemma update_work_outcomes:
  "(\<exists>e w. update_work svc ident data qr s =
        (Inl e, s\<lparr>calls := calls s @
           [GetEntityForUpdateAndEvent qr ident data (Inl e)],
           world := w\<rparr>))
   \<or> (\<exists>ee e w. update_work svc ident data qr s =
        (Inl e, s\<lparr>calls := calls s @
           [GetEntityForUpdateAndEvent qr ident data (Inr ee),
            FactoryCreate qr (Inl e)],
           world := w\<rparr>))
   \<or> (\<exists>ee p e w. update_work svc ident data qr s =
        (Inl e, s\<lparr>calls := calls s @
           [GetEntityForUpdateAndEvent qr ident data (Inr ee),
            FactoryCreate qr (Inr p),
            Save qr (entity ee) (Inl e)],
           world := w\<rparr>))
   \<or> (\<exists>ee p v e w. update_work svc ident data qr s =
        (Inl e, s\<lparr>calls := calls s @
           [GetEntityForUpdateAndEvent qr ident data (Inr ee),
            FactoryCreate qr (Inr p),
            Save qr (entity ee) (Inr v),
            ConsoleLog v,
            Publish p (event ee) (Inl e)],
           world := w\<rparr>))
   \<or> (\<exists>ee p v w. update_work svc ident data qr s =
        (Inr v, s\<lparr>calls := calls s @
           [GetEntityForUpdateAndEvent qr ident data (Inr ee),
            FactoryCreate qr (Inr p),
            Save qr (entity ee) (Inr v),
            ConsoleLog v,
            Publish p (event ee) (Inr ())],
           world := w\<rparr>))"
  by (simp add: update_work_run state_upd_eq split: prod.splits sum.splits)

lemma update_cases [consumes 1, case_names acquire_failed hook_failed factory_failed save_failed publish_failed completed]:
  assumes "transactionService svc = transaction tm"
  obtains
    e where
      "emitted (update svc ident data) s = [Acquire (Inl e)]"
      "fst (update svc ident data s) = Inl e"
  | qr e c where
      "emitted (update svc ident data) s =
         [Acquire (Inr qr),
          GetEntityForUpdateAndEvent qr ident data (Inl e),
          Rollback qr c]"
      "fst (update svc ident data s) = Inl (case c of Inl e' \<Rightarrow> e' | Inr _ \<Rightarrow> e)"
  | qr ee e c where
      "emitted (update svc ident data) s =
         [Acquire (Inr qr),
          GetEntityForUpdateAndEvent qr ident data (Inr ee),
          FactoryCreate qr (Inl e),
          Rollback qr c]"
      "fst (update svc ident data s) = Inl (case c of Inl e' \<Rightarrow> e' | Inr _ \<Rightarrow> e)"
  | qr ee p e c where
      "emitted (update svc ident data) s =
         [Acquire (Inr qr),
          GetEntityForUpdateAndEvent qr ident data (Inr ee),
          FactoryCreate qr (Inr p),
          Save qr (entity ee) (Inl e),
          Rollback qr c]"
      "fst (update svc ident data s) = Inl (case c of Inl e' \<Rightarrow> e' | Inr _ \<Rightarrow> e)"
  | qr ee p v e c where
      "emitted (update svc ident data) s =
         [Acquire (Inr qr),
          GetEntityForUpdateAndEvent qr ident data (Inr ee),
          FactoryCreate qr (Inr p),
          Save qr (entity ee) (Inr v),
          ConsoleLog v,
          Publish p (event ee) (Inl e),
          Rollback qr c]"
      "fst (update svc ident data s) = Inl (case c of Inl e' \<Rightarrow> e' | Inr _ \<Rightarrow> e)"
  | qr ee p v c where
      "emitted (update svc ident data) s =
         [Acquire (Inr qr),
          GetEntityForUpdateAndEvent qr ident data (Inr ee),
          FactoryCreate qr (Inr p),
          Save qr (entity ee) (Inr v),
          ConsoleLog v,
          Publish p (event ee) (Inr ()),
          Commit qr c]"
      "fst (update svc ident data s) = (case c of Inl e \<Rightarrow> Inl e | Inr _ \<Rightarrow> Inr v)"
proof -
  have run: "update svc ident data = transaction tm (update_work svc ident data)"
    by (simp add: update_def await_resolve assms)
  obtain a w where acq: "acquire tm (world s) = (a, w)"
    by (cases "acquire tm (world s)")
  show thesis
  proof (cases a)
    case (Inl e)
    with acq show thesis
      using transaction_acquire_failed [of tm s e w "update_work svc ident data"] that(1) by (simp add: run)
  next
    case (Inr qr)
    define s1 where "s1 = s\<lparr>calls := calls s @ [Acquire (Inr qr)], world := w\<rparr>"
    note acq' = acq [unfolded Inr]
    from update_work_outcomes [of svc ident data qr s1] show thesis
    proof (elim disjE exE)
      fix e w'
      assume "update_work svc ident data qr s1 =
         (Inl e, s1\<lparr>calls := calls s1 @
            [GetEntityForUpdateAndEvent qr ident data (Inl e)],
            world := w'\<rparr>)"
      from transaction_rolled_back [where work = "update_work svc ident data", OF acq' s1_def this] show thesis
        using that(2) by (auto simp: run)
    next
      fix ee e w'
      assume "update_work svc ident data qr s1 =
         (Inl e, s1\<lparr>calls := calls s1 @
            [GetEntityForUpdateAndEvent qr ident data (Inr ee),
             FactoryCreate qr (Inl e)],
            world := w'\<rparr>)"
      from transaction_rolled_back [where work = "update_work svc ident data", OF acq' s1_def this] show thesis
        using that(3) by (auto simp: run)
    next
      fix ee p e w'
      assume "update_work svc ident data qr s1 =
         (Inl e, s1\<lparr>calls := calls s1 @
            [GetEntityForUpdateAndEvent qr ident data (Inr ee),
             FactoryCreate qr (Inr p),
             Save qr (entity ee) (Inl e)],
            world := w'\<rparr>)"
      from transaction_rolled_back [where work = "update_work svc ident data", OF acq' s1_def this] show thesis
        using that(4) by (auto simp: run)
    next
      fix ee p v e w'
      assume "update_work svc ident data qr s1 =
         (Inl e, s1\<lparr>calls := calls s1 @
            [GetEntityForUpdateAndEvent qr ident data (Inr ee),
             FactoryCreate qr (Inr p),
             Save qr (entity ee) (Inr v),
             ConsoleLog v,
             Publish p (event ee) (Inl e)],
            world := w'\<rparr>)"
      from transaction_rolled_back [where work = "update_work svc ident data", OF acq' s1_def this] show thesis
        using that(5) by (auto simp: run)
    next
      fix ee p v w'
      assume "update_work svc ident data qr s1 =
         (Inr v, s1\<lparr>calls := calls s1 @
            [GetEntityForUpdateAndEvent qr ident data (Inr ee),
             FactoryCreate qr (Inr p),
             Save qr (entity ee) (Inr v),
             ConsoleLog v,
             Publish p (event ee) (Inr ())],
            world := w'\<rparr>)"
      from transaction_committed [where work = "update_work svc ident data", OF acq' s1_def this] show thesis
        using that(6) by (auto simp: run)
    qed
  qed
qed

lemma delete_work_run:
  "delete_work svc ident qr s =
    (case getEntityForDeleteAndEvent svc qr ident (world s) of
       (Inl e, w1) \<Rightarrow>
         (Inl e, s\<lparr>calls := calls s @
            [GetEntityForDeleteAndEvent qr ident (Inl e)],
            world := w1\<rparr>)
     | (Inr ee, w1) \<Rightarrow>
        (case eventPublisherFactory svc qr w1 of
           (Inl e, w2) \<Rightarrow>
             (Inl e, s\<lparr>calls := calls s @
                [GetEntityForDeleteAndEvent qr ident (Inr ee),
                 FactoryCreate qr (Inl e)],
                world := w2\<rparr>)
         | (Inr p, w2) \<Rightarrow>
            (case publish svc p (event ee) w2 of
               (Inl e, w3) \<Rightarrow>
                 (Inl e, s\<lparr>calls := calls s @
                    [GetEntityForDeleteAndEvent qr ident (Inr ee),
                     FactoryCreate qr (Inr p),
                     Publish p (event ee) (Inl e)],
                    world := w3\<rparr>)
             | (Inr u, w3) \<Rightarrow>
                (case remove svc qr (entity ee) w3 of
                   (Inl e, w4) \<Rightarrow>
                     (Inl e, s\<lparr>calls := calls s @
                        [GetEntityForDeleteAndEvent qr ident (Inr ee),
                         FactoryCreate qr (Inr p),
                         Publish p (event ee) (Inr ()),
                         Remove qr (entity ee) (Inl e)],
                        world := w4\<rparr>)
                 | (Inr v, w4) \<Rightarrow>
                     (Inr v, s\<lparr>calls := calls s @
                        [GetEntityForDeleteAndEvent qr ident (Inr ee),
                         FactoryCreate qr (Inr p),
                         Publish p (event ee) (Inr ()),
                         Remove qr (entity ee) (Inr v)],
                        world := w4\<rparr>)))))"
  by (simp add: delete_work_def invoke_def await_def split: prod.splits sum.splits)

lemma delete_work_outcomes:
  "(\<exists>e w. delete_work svc ident qr s =
        (Inl e, s\<lparr>calls := calls s @
           [GetEntityForDeleteAndEvent qr ident (Inl e)],
           world := w\<rparr>))
   \<or> (\<exists>ee e w. delete_work svc ident qr s =
        (Inl e, s\<lparr>calls := calls s @
           [GetEntityForDeleteAndEvent qr ident (Inr ee),
            FactoryCreate qr (Inl e)],
           world := w\<rparr>))
   \<or> (\<exists>ee p e w. delete_work svc ident qr s =
        (Inl e, s\<lparr>calls := calls s @
           [GetEntityForDeleteAndEvent qr ident (Inr ee),
            FactoryCreate qr (Inr p),
            Publish p (event ee) (Inl e)],
           world := w\<rparr>))
   \<or> (\<exists>ee p e w. delete_work svc ident qr s =
        (Inl e, s\<lparr>calls := calls s @
           [GetEntityForDeleteAndEvent qr ident (Inr ee),
            FactoryCreate qr (Inr p),
            Publish p (event ee) (Inr ()),
            Remove qr (entity ee) (Inl e)],
           world := w\<rparr>))
   \<or> (\<exists>ee p v w. delete_work svc ident qr s =
        (Inr v, s\<lparr>calls := calls s @
           [GetEntityForDeleteAndEvent qr ident (Inr ee),
            FactoryCreate qr (Inr p),
            Publish p (event ee) (Inr ()),
            Remove qr (entity ee) (Inr v)],
           world := w\<rparr>))"
  by (simp add: delete_work_run state_upd_eq split: prod.splits sum.splits)

lemma delete_cases [consumes 1, case_names acquire_failed hook_failed factory_failed publish_failed remove_failed completed]:
  assumes "transactionService svc = transaction tm"
  obtains
    e where
      "emitted (delete svc ident) s = [Acquire (Inl e)]"
      "fst (transaction tm (delete_work svc ident) s) = Inl e"
  | qr e c where
      "emitted (delete svc ident) s =
         [Acquire (Inr qr),
          GetEntityForDeleteAndEvent qr ident (Inl e),
          Rollback qr c]"
      "fst (transaction tm (delete_work svc ident) s) = Inl (case c of Inl e' \<Rightarrow> e' | Inr _ \<Rightarrow> e)"
  | qr ee e c where
      "emitted (delete svc ident) s =
         [Acquire (Inr qr),
          GetEntityForDeleteAndEvent qr ident (Inr ee),
          FactoryCreate qr (Inl e),
          Rollback qr c]"
      "fst (transaction tm (delete_work svc ident) s) = Inl (case c of Inl e' \<Rightarrow> e' | Inr _ \<Rightarrow> e)"
  | qr ee p e c where
      "emitted (delete svc ident) s =
         [Acquire (Inr qr),
          GetEntityForDeleteAndEvent qr ident (Inr ee),
          FactoryCreate qr (Inr p),
          Publish p (event ee) (Inl e),
          Rollback qr c]"
      "fst (transaction tm (delete_work svc ident) s) = Inl (case c of Inl e' \<Rightarrow> e' | Inr _ \<Rightarrow> e)"
  | qr ee p e c where
      "emitted (delete svc ident) s =
         [Acquire (Inr qr),
          GetEntityForDeleteAndEvent qr ident (Inr ee),
          FactoryCreate qr (Inr p),
          Publish p (event ee) (Inr ()),
          Remove qr (entity ee) (Inl e),
          Rollback qr c]"
      "fst (transaction tm (delete_work svc ident) s) = Inl (case c of Inl e' \<Rightarrow> e' | Inr _ \<Rightarrow> e)"
  | qr ee p v c where
      "emitted (delete svc ident) s =
         [Acquire (Inr qr),
          GetEntityForDeleteAndEvent qr ident (Inr ee),
          FactoryCreate qr (Inr p),
          Publish p (event ee) (Inr ()),
          Remove qr (entity ee) (Inr v),
          Commit qr c]"
      "fst (transaction tm (delete_work svc ident) s) = (case c of Inl e \<Rightarrow> Inl e | Inr _ \<Rightarrow> Inr v)"
proof -
  have run: "emitted (delete svc ident) s = emitted (transaction tm (delete_work svc ident)) s"
    by (simp add: delete_def emitted_def assms split: prod.splits sum.splits)
  obtain a w where acq: "acquire tm (world s) = (a, w)"
    by (cases "acquire tm (world s)")
  show thesis
  proof (cases a)
    case (Inl e)
    with acq show thesis
      using transaction_acquire_failed [of tm s e w "delete_work svc ident"] that(1) by (simp add: run)
  next
    case (Inr qr)
    define s1 where "s1 = s\<lparr>calls := calls s @ [Acquire (Inr qr)], world := w\<rparr>"
    note acq' = acq [unfolded Inr]
    from delete_work_outcomes [of svc ident qr s1] show thesis
    proof (elim disjE exE)
      fix e w'
      assume "delete_work svc ident qr s1 =
         (Inl e, s1\<lparr>calls := calls s1 @
            [GetEntityForDeleteAndEvent qr ident (Inl e)],
            world := w'\<rparr>)"
      from transaction_rolled_back [where work = "delete_work svc ident", OF acq' s1_def this] show thesis
        using that(2) by (auto simp: run)
    next
      fix ee e w'
      assume "delete_work svc ident qr s1 =
         (Inl e, s1\<lparr>calls := calls s1 @
            [GetEntityForDeleteAndEvent qr ident (Inr ee),
             FactoryCreate qr (Inl e)],
            world := w'\<rparr>)"
      from transaction_rolled_back [where work = "delete_work svc ident", OF acq' s1_def this] show thesis
        using that(3) by (auto simp: run)
    next
      fix ee p e w'
      assume "delete_work svc ident qr s1 =
         (Inl e, s1\<lparr>calls := calls s1 @
            [GetEntityForDeleteAndEvent qr ident (Inr ee),
             FactoryCreate qr (Inr p),
             Publish p (event ee) (Inl e)],
            world := w'\<rparr>)"
      from transaction_rolled_back [where work = "delete_work svc ident", OF acq' s1_def this] show thesis
        using that(4) by (auto simp: run)
    next
      fix ee p e w'
      assume "delete_work svc ident qr s1 =
         (Inl e, s1\<lparr>calls := calls s1 @
            [GetEntityForDeleteAndEvent qr ident (Inr ee),
             FactoryCreate qr (Inr p),
             Publish p (event ee) (Inr ()),
             Remove qr (entity ee) (Inl e)],
            world := w'\<rparr>)"
      from transaction_rolled_back [where work = "delete_work svc ident", OF acq' s1_def this] show thesis
        using that(5) by (auto simp: run)
    next
      fix ee p v w'
      assume "delete_work svc ident qr s1 =
         (Inr v, s1\<lparr>calls := calls s1 @
            [GetEntityForDeleteAndEvent qr ident (Inr ee),
             FactoryCreate qr (Inr p),
             Publish p (event ee) (Inr ()),
             Remove qr (entity ee) (Inr v)],
            world := w'\<rparr>)"
      from transaction_committed [where work = "delete_work svc ident", OF acq' s1_def this] show thesis
        using that(6) by (auto simp: run)
    qed
  qed
qed


section \<open>The claims\<close>

lemmas log_simps = count_calls_def succeeded_def rejection_def published_def persisted_def
  failures_def one_transaction_def

lemmas demo_simps = demo_service_def demo_bus_down_def demo_manager_def demo_save_def
  demo_remove_def demo_lookup_def demo_state_def create_def update_def delete_def
  create_work_def update_work_def delete_work_def transaction_def invoke_def await_def
  resolve_def console_log_def emitted_def Let_def

lemma demo_managed: "transactionService demo_service = transaction demo_manager"
  by (simp add: demo_service_def)

lemma demo_bus_down_managed: "transactionService demo_bus_down = transaction demo_manager"
  by (simp add: demo_service_def demo_bus_down_def)










text \<open>
  Claim C5.  The promise of \<^verbatim>\<open>delete\<close> does not await the transaction: for every service,
  identifier and state \<^verbatim>\<open>delete\<close> resolves with no value, whatever the hook, the publisher,
  the remove call or the transaction manager do, and a rejection of the transaction ends as
  an unhandled rejection instead of reaching the caller.  (The transaction service is taken
  to return a promise, as its interface declares; the theorem holds for every transaction
  service, not only for the one modelled from the specification.)
\<close>

theorem delete_does_not_await_the_transaction:
  "fst (delete svc ident s) = Inr ()
   \<and> (fst (transactionService svc (delete_work svc ident) s) = Inl e \<longrightarrow>
        unhandled (snd (delete svc ident s)) =
          unhandled (snd (transactionService svc (delete_work svc ident) s)) @ [e])"
  by (simp add: delete_def split: prod.splits sum.splits)

theorem delete_does_not_await_the_transaction_witness:
  "fst (transactionService demo_service (delete_work demo_service ''9'')
          (demo_state ([(''1'', ''A'')], []))) = Inl ''not found''
   \<and> fst (delete demo_service ''9'' (demo_state ([(''1'', ''A'')], []))) = Inr ()
   \<and> unhandled (snd (delete demo_service ''9'' (demo_state ([(''1'', ''A'')], [])))) = [''not found'']
   \<and> fst (update demo_service ''9'' ''B'' (demo_state ([(''1'', ''A'')], []))) = Inl ''not found''"
proof -
  have failed: "fst (transactionService demo_service (delete_work demo_service ''9'')
          (demo_state ([(''1'', ''A'')], []))) = Inl ''not found''"
    by (simp add: demo_simps)
  have before: "unhandled (snd (transactionService demo_service (delete_work demo_service ''9'')
          (demo_state ([(''1'', ''A'')], [])))) = []"
    by (simp add: demo_simps)
  have upd: "fst (update demo_service ''9'' ''B'' (demo_state ([(''1'', ''A'')], []))) = Inl ''not found''"
    by (simp add: demo_simps)
  from delete_does_not_await_the_transaction
    [of demo_service "''9''" "demo_state ([(''1'', ''A'')], [])" "''not found''"]
  show ?thesis using failed before upd by simp
qed

text \<open>
  Claim C6.  If the hook of an operation rejects, the work function rejects with the error of
  the hook and the hook call is the only call it has made: the event publisher factory is
  not invoked and there is no publish, save or remove call.  Under the transaction manager
  of the specification the whole invocation consists of the acquisition, the rejected hook
  call and the rollback.
\<close>

theorem hook_rejection_stops_the_work:
  "(getEntityForCreateAndEvent svc qr data (world s) = (Inl e, w) \<longrightarrow>
      create_work svc data qr s =
        (Inl e, s\<lparr>calls := calls s @ [GetEntityForCreateAndEvent qr data (Inl e)], world := w\<rparr>))
   \<and> (getEntityForUpdateAndEvent svc qr ident data (world s) = (Inl e, w) \<longrightarrow>
      update_work svc ident data qr s =
        (Inl e, s\<lparr>calls := calls s @ [GetEntityForUpdateAndEvent qr ident data (Inl e)], world := w\<rparr>))
   \<and> (getEntityForDeleteAndEvent svc qr ident (world s) = (Inl e, w) \<longrightarrow>
      delete_work svc ident qr s =
        (Inl e, s\<lparr>calls := calls s @ [GetEntityForDeleteAndEvent qr ident (Inl e)], world := w\<rparr>))
   \<and> (transactionService svc = transaction tm \<longrightarrow>
        (GetEntityForCreateAndEvent qr data (Inl e) \<in> set (emitted (create svc data) s) \<longrightarrow>
           (\<exists>c. emitted (create svc data) s =
              [Acquire (Inr qr), GetEntityForCreateAndEvent qr data (Inl e), Rollback qr c]))
      \<and> (GetEntityForUpdateAndEvent qr ident data (Inl e) \<in> set (emitted (update svc ident data) s) \<longrightarrow>
           (\<exists>c. emitted (update svc ident data) s =
              [Acquire (Inr qr), GetEntityForUpdateAndEvent qr ident data (Inl e), Rollback qr c]))
      \<and> (GetEntityForDeleteAndEvent qr ident (Inl e) \<in> set (emitted (delete svc ident) s) \<longrightarrow>
           (\<exists>c. emitted (delete svc ident) s =
              [Acquire (Inr qr), GetEntityForDeleteAndEvent qr ident (Inl e), Rollback qr c])))"
proof -
  have "getEntityForCreateAndEvent svc qr data (world s) = (Inl e, w) \<longrightarrow>
      create_work svc data qr s =
        (Inl e, s\<lparr>calls := calls s @ [GetEntityForCreateAndEvent qr data (Inl e)], world := w\<rparr>)"
    by (simp add: create_work_run)
  moreover have "getEntityForUpdateAndEvent svc qr ident data (world s) = (Inl e, w) \<longrightarrow>
      update_work svc ident data qr s =
        (Inl e, s\<lparr>calls := calls s @ [GetEntityForUpdateAndEvent qr ident data (Inl e)], world := w\<rparr>)"
    by (simp add: update_work_run)
  moreover have "getEntityForDeleteAndEvent svc qr ident (world s) = (Inl e, w) \<longrightarrow>
      delete_work svc ident qr s =
        (Inl e, s\<lparr>calls := calls s @ [GetEntityForDeleteAndEvent qr ident (Inl e)], world := w\<rparr>)"
    by (simp add: delete_work_run)
  moreover have "GetEntityForCreateAndEvent qr data (Inl e) \<in> set (emitted (create svc data) s) \<longrightarrow>
           (\<exists>c. emitted (create svc data) s =
              [Acquire (Inr qr), GetEntityForCreateAndEvent qr data (Inl e), Rollback qr c])"
    if "transactionService svc = transaction tm"
    using that by (cases rule: create_cases [of svc tm data s]) simp_all
  moreover have "GetEntityForUpdateAndEvent qr ident data (Inl e) \<in> set (emitted (update svc ident data) s) \<longrightarrow>
           (\<exists>c. emitted (update svc ident data) s =
              [Acquire (Inr qr), GetEntityForUpdateAndEvent qr ident data (Inl e), Rollback qr c])"
    if "transactionService svc = transaction tm"
    using that by (cases rule: update_cases [of svc tm ident data s]) simp_all
  moreover have "GetEntityForDeleteAndEvent qr ident (Inl e) \<in> set (emitted (delete svc ident) s) \<longrightarrow>
           (\<exists>c. emitted (delete svc ident) s =
              [Acquire (Inr qr), GetEntityForDeleteAndEvent qr ident (Inl e), Rollback qr c])"
    if "transactionService svc = transaction tm"
    using that by (cases rule: delete_cases [of svc tm ident s]) simp_all
  ultimately show ?thesis by blast
qed


theorem hook_rejection_stops_the_work_witness:
  "create_work demo_service [] ([], []) (demo_state ([], [])) =
     (Inl ''invalid'',
      (demo_state ([], []))\<lparr>calls := calls (demo_state ([], [])) @
         [GetEntityForCreateAndEvent ([], []) [] (Inl ''invalid'')], world := ([], [])\<rparr>)
   \<and> update_work demo_service ''9'' ''B'' ([], []) (demo_state ([], [])) =
     (Inl ''not found'',
      (demo_state ([], []))\<lparr>calls := calls (demo_state ([], [])) @
         [GetEntityForUpdateAndEvent ([], []) ''9'' ''B'' (Inl ''not found'')], world := ([], [])\<rparr>)
   \<and> delete_work demo_service ''9'' ([], []) (demo_state ([], [])) =
     (Inl ''not found'',
      (demo_state ([], []))\<lparr>calls := calls (demo_state ([], [])) @
         [GetEntityForDeleteAndEvent ([], []) ''9'' (Inl ''not found'')], world := ([], [])\<rparr>)
   \<and> (\<exists>c. emitted (create demo_service []) (demo_state ([], [])) =
         [Acquire (Inr ([], [])), GetEntityForCreateAndEvent ([], []) [] (Inl ''invalid''),
          Rollback ([], []) c])
   \<and> (\<exists>c. emitted (update demo_service ''9'' ''B'') (demo_state ([], [])) =
         [Acquire (Inr ([], [])), GetEntityForUpdateAndEvent ([], []) ''9'' ''B'' (Inl ''not found''),
          Rollback ([], []) c])
   \<and> (\<exists>c. emitted (delete demo_service ''9'') (demo_state ([], [])) =
         [Acquire (Inr ([], [])), GetEntityForDeleteAndEvent ([], []) ''9'' (Inl ''not found''),
          Rollback ([], []) c])"
proof -
  have c: "getEntityForCreateAndEvent demo_service ([], []) [] (world (demo_state ([], []))) =
      (Inl ''invalid'', ([], []))"
    by (simp add: demo_service_def demo_state_def)
  have u: "getEntityForUpdateAndEvent demo_service ([], []) ''9'' ''B'' (world (demo_state ([], []))) =
      (Inl ''not found'', ([], []))"
    by (simp add: demo_service_def demo_state_def demo_lookup_def)
  have d: "getEntityForDeleteAndEvent demo_service ([], []) ''9'' (world (demo_state ([], []))) =
      (Inl ''not found'', ([], []))"
    by (simp add: demo_service_def demo_state_def demo_lookup_def)
  have cm: "GetEntityForCreateAndEvent ([], []) [] (Inl ''invalid'')
      \<in> set (emitted (create demo_service []) (demo_state ([], [])))"
    by (simp add: demo_simps)
  have um: "GetEntityForUpdateAndEvent ([], []) ''9'' ''B'' (Inl ''not found'')
      \<in> set (emitted (update demo_service ''9'' ''B'') (demo_state ([], [])))"
    by (simp add: demo_simps)
  have dm: "GetEntityForDeleteAndEvent ([], []) ''9'' (Inl ''not found'')
      \<in> set (emitted (delete demo_service ''9'') (demo_state ([], [])))"
    by (simp add: demo_simps)
  from hook_rejection_stops_the_work
    [where svc = demo_service and tm = demo_manager and qr = "([], [])" and data = "[]"
      and s = "demo_state ([], [])" and e = "''invalid''" and w = "([], [])"]
    hook_rejection_stops_the_work
    [where svc = demo_service and tm = demo_manager and qr = "([], [])" and data = "''B''"
      and ident = "''9''" and s = "demo_state ([], [])" and e = "''not found''" and w = "([], [])"]
  show ?thesis
    using c u d cm um dm demo_managed by simp
qed

text \<open>
  Claim C7 as stated, that every failure of the hook, the publisher, the save call or the
  transaction manager reaches the caller of \<^verbatim>\<open>create\<close> and \<^verbatim>\<open>update\<close> unchanged, does not
  hold when two calls fail.  Here the save call rejects with a constraint violation, the
  transaction manager rolls back, and the rollback fails too: the caller receives the error
  of the rollback, and the error of the save call is lost.
\<close>

theorem errors_propagate_unchanged_counterexample:
  "Save ([], []) (None, ''dup'') (Inl ''constraint violation'')
     \<in> set (emitted (create demo_rollback_fails ''dup'') (demo_state ([], [])))
   \<and> fst (create demo_rollback_fails ''dup'' (demo_state ([], []))) = Inl ''rollback failed''
   \<and> fst (create demo_rollback_fails ''dup'' (demo_state ([], []))) \<noteq> Inl ''constraint violation''
   \<and> Save ([(''1'', ''A'')], []) (Some ''1'', ''dup'') (Inl ''constraint violation'')
     \<in> set (emitted (update demo_rollback_fails ''1'' ''dup'') (demo_state ([(''1'', ''A'')], [])))
   \<and> fst (update demo_rollback_fails ''1'' ''dup'' (demo_state ([(''1'', ''A'')], []))) =
       Inl ''rollback failed''
   \<and> fst (update demo_rollback_fails ''1'' ''dup'' (demo_state ([(''1'', ''A'')], []))) \<noteq>
       Inl ''constraint violation''"
  by (simp add: demo_simps demo_rollback_fails_def)

text \<open>
  Claim C7, amended.  \<^verbatim>\<open>create\<close> and \<^verbatim>\<open>update\<close> catch, wrap and translate nothing: they
  return exactly what the transaction service returns for their work function, so a failure
  of the transaction manager reaches the caller as it is.  The work function rejects with
  \<open>e\<close> exactly when one of its collaborator calls (hook, publisher factory, publish, save)
  failed, that call failed with \<open>e\<close>, and no other call of the work function failed.  Under
  the transaction manager of the specification the operation rejects with \<open>e\<close> exactly when
  some call of the invocation failed and \<open>e\<close> is the error of the last call that failed.
  So a failure that is the only one of its invocation reaches the caller unchanged; when the
  rollback that follows a failure fails as well, the caller receives the error of the
  rollback.  In every case the error the caller receives is the very value a failing
  collaborator produced.
\<close>

theorem last_failure_reaches_caller:
  "create svc data s = transactionService svc (create_work svc data) s
   \<and> update svc ident data s = transactionService svc (update_work svc ident data) s
   \<and> (fst (create_work svc data qr s) = Inl e \<longleftrightarrow>
        failures (emitted (create_work svc data qr) s) = [e])
   \<and> (fst (update_work svc ident data qr s) = Inl e \<longleftrightarrow>
        failures (emitted (update_work svc ident data qr) s) = [e])
   \<and> (transactionService svc = transaction tm \<longrightarrow>
        (fst (create svc data s) = Inl e \<longleftrightarrow>
           failures (emitted (create svc data) s) \<noteq> []
           \<and> last (failures (emitted (create svc data) s)) = e)
      \<and> (fst (update svc ident data s) = Inl e \<longleftrightarrow>
           failures (emitted (update svc ident data) s) \<noteq> []
           \<and> last (failures (emitted (update svc ident data) s)) = e)
      \<and> (failures (emitted (create svc data) s) = [e] \<longrightarrow> fst (create svc data s) = Inl e)
      \<and> (failures (emitted (update svc ident data) s) = [e] \<longrightarrow>
           fst (update svc ident data s) = Inl e))"
proof -
  have c0: "create svc data s = transactionService svc (create_work svc data) s"
    by (simp add: create_def await_resolve)
  have u0: "update svc ident data s = transactionService svc (update_work svc ident data) s"
    by (simp add: update_def await_resolve)
  have cw: "fst (create_work svc data qr s) = Inl e \<longleftrightarrow>
        failures (emitted (create_work svc data qr) s) = [e]"
    using create_work_outcomes [of svc data qr s]
    by (elim disjE exE) (simp_all add: emitted_def log_simps)
  have uw: "fst (update_work svc ident data qr s) = Inl e \<longleftrightarrow>
        failures (emitted (update_work svc ident data qr) s) = [e]"
    using update_work_outcomes [of svc ident data qr s]
    by (elim disjE exE) (simp_all add: emitted_def log_simps)
  have c1: "fst (create svc data s) = Inl e \<longleftrightarrow>
           failures (emitted (create svc data) s) \<noteq> []
           \<and> last (failures (emitted (create svc data) s)) = e"
    if "transactionService svc = transaction tm"
    using that
    by (cases rule: create_cases [of svc tm data s]) (simp_all add: log_simps split: sum.splits)
  have u1: "fst (update svc ident data s) = Inl e \<longleftrightarrow>
           failures (emitted (update svc ident data) s) \<noteq> []
           \<and> last (failures (emitted (update svc ident data) s)) = e"
    if "transactionService svc = transaction tm"
    using that
    by (cases rule: update_cases [of svc tm ident data s])
      (simp_all add: log_simps split: sum.splits)
  have c2: "failures (emitted (create svc data) s) = [e] \<longrightarrow> fst (create svc data s) = Inl e"
    if "transactionService svc = transaction tm"
    using c1 [OF that] by simp
  have u2: "failures (emitted (update svc ident data) s) = [e] \<longrightarrow>
      fst (update svc ident data s) = Inl e"
    if "transactionService svc = transaction tm"
    using u1 [OF that] by simp
  show ?thesis
    by (intro conjI impI c0 u0 cw uw c1 u1 c2 [rule_format] u2 [rule_format])
qed

theorem last_failure_reaches_caller_witness:
  "transactionService demo_service = transaction demo_manager
   \<and> failures (emitted (create demo_service ''dup'') (demo_state ([], []))) = [''constraint violation'']
   \<and> fst (create demo_service ''dup'' (demo_state ([], []))) = Inl ''constraint violation''
   \<and> failures (emitted (update demo_bus_down ''1'' ''B'') (demo_state ([(''1'', ''A'')], []))) = [''bus down'']
   \<and> fst (update demo_bus_down ''1'' ''B'' (demo_state ([(''1'', ''A'')], []))) = Inl ''bus down''"
proof -
  have c: "failures (emitted (create demo_service ''dup'') (demo_state ([], []))) =
      [''constraint violation'']"
    by (simp add: demo_simps log_simps)
  then have c': "failures (emitted (create demo_service ''dup'') (demo_state ([], []))) \<noteq> []
      \<and> last (failures (emitted (create demo_service ''dup'') (demo_state ([], [])))) =
          ''constraint violation''"
    by simp
  have u: "failures (emitted (update demo_bus_down ''1'' ''B'') (demo_state ([(''1'', ''A'')], []))) =
      [''bus down'']"
    by (simp add: demo_simps log_simps)
  then have u': "failures (emitted (update demo_bus_down ''1'' ''B'')
          (demo_state ([(''1'', ''A'')], []))) \<noteq> []
      \<and> last (failures (emitted (update demo_bus_down ''1'' ''B'')
          (demo_state ([(''1'', ''A'')], [])))) = ''bus down''"
    by simp
  from last_failure_reaches_caller
    [where svc = demo_service and tm = demo_manager and data = "''dup''" and ident = "''1''"
      and qr = "([], [])" and s = "demo_state ([], [])" and e = "''constraint violation''"]
    demo_managed c'
  have "fst (create demo_service ''dup'' (demo_state ([], []))) = Inl ''constraint violation''"
    by blast
  moreover from last_failure_reaches_caller
    [where svc = demo_bus_down and tm = demo_manager and data = "''B''" and ident = "''1''"
      and qr = "([], [])" and s = "demo_state ([(''1'', ''A'')], [])" and e = "''bus down''"]
    demo_bus_down_managed u'
  have "fst (update demo_bus_down ''1'' ''B'' (demo_state ([(''1'', ''A'')], []))) = Inl ''bus down''"
    by blast
  ultimately show ?thesis
    using c u demo_managed by simp
qed

text \<open>
  Claim C8.  Whenever \<^verbatim>\<open>create\<close> resolves, it resolves to the value that the save call
  returned for the entity of the hook, not to that entity itself; and when every call of
  the invocation succeeds, \<^verbatim>\<open>create\<close> resolves to the value that the save call returned.  In
  the scenario of the specification the hook returns an entity without an identifier, the
  save call returns it with the identifier \<open>''1''\<close>, and \<^verbatim>\<open>create\<close> resolves to the latter.
\<close>

theorem create_resolves_to_saved_value:
  assumes "transactionService svc = transaction tm"
  shows "(fst (create svc data s) = Inr v \<longrightarrow>
           (\<exists>qr ee. GetEntityForCreateAndEvent qr data (Inr ee) \<in> set (emitted (create svc data) s)
              \<and> Save qr (entity ee) (Inr v) \<in> set (emitted (create svc data) s)))
       \<and> (list_all succeeded (emitted (create svc data) s)
            \<and> Save qr en (Inr v) \<in> set (emitted (create svc data) s) \<longrightarrow>
          fst (create svc data s) = Inr v)"
  using assms
  by (cases rule: create_cases [of svc tm data s]) (auto simp: log_simps split: sum.splits)

theorem create_resolves_to_saved_value_witness:
  "GetEntityForCreateAndEvent ([], []) ''A'' (Inr \<lparr>entity = (None, ''A''), event = ''created''\<rparr>)
     \<in> set (emitted (create demo_service ''A'') (demo_state ([], [])))
   \<and> Save ([], []) (None, ''A'') (Inr (Some ''1'', ''A''))
     \<in> set (emitted (create demo_service ''A'') (demo_state ([], [])))
   \<and> list_all succeeded (emitted (create demo_service ''A'') (demo_state ([], [])))
   \<and> fst (create demo_service ''A'' (demo_state ([], []))) = Inr (Some ''1'', ''A'')"
proof -
  have ok: "list_all succeeded (emitted (create demo_service ''A'') (demo_state ([], [])))"
    by (simp add: demo_simps succeeded_def rejection_def)
  have sv: "Save ([], []) (None, ''A'') (Inr (Some ''1'', ''A''))
     \<in> set (emitted (create demo_service ''A'') (demo_state ([], [])))"
    by (simp add: demo_simps)
  have hk: "GetEntityForCreateAndEvent ([], []) ''A''
       (Inr \<lparr>entity = (None, ''A''), event = ''created''\<rparr>)
     \<in> set (emitted (create demo_service ''A'') (demo_state ([], [])))"
    by (simp add: demo_simps)
  from create_resolves_to_saved_value
    [OF demo_managed, where data = "''A''" and s = "demo_state ([], [])"
      and qr = "([], [])" and en = "(None, ''A'')" and v = "(Some ''1'', ''A'')"]
  show ?thesis using ok sv hk by simp
qed

text \<open>
  Claim C9.  If the publish call rejects, then in \<^verbatim>\<open>create\<close> and \<^verbatim>\<open>delete\<close> no save or
  remove call is made at all, and in \<^verbatim>\<open>update\<close> the one save call has already been made
  inside the same work function; in all three the transaction is rolled back, no commit is
  attempted, and \<^verbatim>\<open>create\<close> and \<^verbatim>\<open>update\<close> reject.
\<close>

theorem publish_rejection_prevents_commit:
  assumes "transactionService svc = transaction tm"
  shows "(Publish p ev (Inl e) \<in> set (emitted (create svc data) s) \<longrightarrow>
            \<not> list_ex is_save (emitted (create svc data) s)
          \<and> \<not> list_ex is_commit (emitted (create svc data) s)
          \<and> (\<exists>qr ee c. emitted (create svc data) s =
                [Acquire (Inr qr), GetEntityForCreateAndEvent qr data (Inr ee),
                 FactoryCreate qr (Inr p), Publish p ev (Inl e), Rollback qr c]
              \<and> fst (create svc data s) = Inl (case c of Inl e' \<Rightarrow> e' | Inr _ \<Rightarrow> e)))
       \<and> (Publish p ev (Inl e) \<in> set (emitted (delete svc ident) s) \<longrightarrow>
            \<not> list_ex is_remove (emitted (delete svc ident) s)
          \<and> \<not> list_ex is_commit (emitted (delete svc ident) s)
          \<and> (\<exists>qr ee c. emitted (delete svc ident) s =
                [Acquire (Inr qr), GetEntityForDeleteAndEvent qr ident (Inr ee),
                 FactoryCreate qr (Inr p), Publish p ev (Inl e), Rollback qr c]))
       \<and> (Publish p ev (Inl e) \<in> set (emitted (update svc ident data) s) \<longrightarrow>
            count_calls is_save (emitted (update svc ident data) s) = 1
          \<and> \<not> list_ex is_commit (emitted (update svc ident data) s)
          \<and> (\<exists>qr ee v c. emitted (update svc ident data) s =
                [Acquire (Inr qr), GetEntityForUpdateAndEvent qr ident data (Inr ee),
                 FactoryCreate qr (Inr p), Save qr (entity ee) (Inr v), ConsoleLog v,
                 Publish p ev (Inl e), Rollback qr c]
              \<and> fst (update svc ident data s) = Inl (case c of Inl e' \<Rightarrow> e' | Inr _ \<Rightarrow> e)))"
proof -
  have "Publish p ev (Inl e) \<in> set (emitted (create svc data) s) \<longrightarrow>
            \<not> list_ex is_save (emitted (create svc data) s)
          \<and> \<not> list_ex is_commit (emitted (create svc data) s)
          \<and> (\<exists>qr ee c. emitted (create svc data) s =
                [Acquire (Inr qr), GetEntityForCreateAndEvent qr data (Inr ee),
                 FactoryCreate qr (Inr p), Publish p ev (Inl e), Rollback qr c]
              \<and> fst (create svc data s) = Inl (case c of Inl e' \<Rightarrow> e' | Inr _ \<Rightarrow> e))"
    using assms by (cases rule: create_cases [of svc tm data s]) (auto simp: log_simps)
  moreover have "Publish p ev (Inl e) \<in> set (emitted (delete svc ident) s) \<longrightarrow>
            \<not> list_ex is_remove (emitted (delete svc ident) s)
          \<and> \<not> list_ex is_commit (emitted (delete svc ident) s)
          \<and> (\<exists>qr ee c. emitted (delete svc ident) s =
                [Acquire (Inr qr), GetEntityForDeleteAndEvent qr ident (Inr ee),
                 FactoryCreate qr (Inr p), Publish p ev (Inl e), Rollback qr c])"
    using assms by (cases rule: delete_cases [of svc tm ident s]) (auto simp: log_simps)
  moreover have "Publish p ev (Inl e) \<in> set (emitted (update svc ident data) s) \<longrightarrow>
            count_calls is_save (emitted (update svc ident data) s) = 1
          \<and> \<not> list_ex is_commit (emitted (update svc ident data) s)
          \<and> (\<exists>qr ee v c. emitted (update svc ident data) s =
                [Acquire (Inr qr), GetEntityForUpdateAndEvent qr ident data (Inr ee),
                 FactoryCreate qr (Inr p), Save qr (entity ee) (Inr v), ConsoleLog v,
                 Publish p ev (Inl e), Rollback qr c]
              \<and> fst (update svc ident data s) = Inl (case c of Inl e' \<Rightarrow> e' | Inr _ \<Rightarrow> e))"
    using assms by (cases rule: update_cases [of svc tm ident data s]) (auto simp: log_simps)
  ultimately show ?thesis by blast
qed

theorem publish_rejection_prevents_commit_witness:
  "Publish 0 ''created'' (Inl ''bus down'') \<in> set (emitted (create demo_bus_down ''A'') (demo_state ([(''1'', ''A'')], [])))
   \<and> \<not> list_ex is_save (emitted (create demo_bus_down ''A'') (demo_state ([(''1'', ''A'')], [])))
   \<and> Publish 0 ''deleted'' (Inl ''bus down'') \<in> set (emitted (delete demo_bus_down ''1'') (demo_state ([(''1'', ''A'')], [])))
   \<and> \<not> list_ex is_remove (emitted (delete demo_bus_down ''1'') (demo_state ([(''1'', ''A'')], [])))
   \<and> Publish 0 ''updated'' (Inl ''bus down'') \<in> set (emitted (update demo_bus_down ''1'' ''B'') (demo_state ([(''1'', ''A'')], [])))
   \<and> count_calls is_save (emitted (update demo_bus_down ''1'' ''B'') (demo_state ([(''1'', ''A'')], []))) = 1
   \<and> \<not> list_ex is_commit (emitted (update demo_bus_down ''1'' ''B'') (demo_state ([(''1'', ''A'')], [])))
   \<and> world (snd (update demo_bus_down ''1'' ''B'' (demo_state ([(''1'', ''A'')], [])))) = ([(''1'', ''A'')], [])"
proof -
  have c: "Publish 0 ''created'' (Inl ''bus down'')
      \<in> set (emitted (create demo_bus_down ''A'') (demo_state ([(''1'', ''A'')], [])))"
    by (simp add: demo_simps)
  have d: "Publish 0 ''deleted'' (Inl ''bus down'')
      \<in> set (emitted (delete demo_bus_down ''1'') (demo_state ([(''1'', ''A'')], [])))"
    by (simp add: demo_simps)
  have u: "Publish 0 ''updated'' (Inl ''bus down'')
      \<in> set (emitted (update demo_bus_down ''1'' ''B'') (demo_state ([(''1'', ''A'')], [])))"
    by (simp add: demo_simps)
  have w: "world (snd (update demo_bus_down ''1'' ''B'' (demo_state ([(''1'', ''A'')], [])))) =
      ([(''1'', ''A'')], [])"
    by (simp add: demo_simps)
  from publish_rejection_prevents_commit
    [OF demo_bus_down_managed, where p = 0 and ev = "''created''" and e = "''bus down''"
      and data = "''A''" and ident = "''1''" and s = "demo_state ([(''1'', ''A'')], [])"]
    publish_rejection_prevents_commit
    [OF demo_bus_down_managed, where p = 0 and ev = "''deleted''" and e = "''bus down''"
      and data = "''A''" and ident = "''1''" and s = "demo_state ([(''1'', ''A'')], [])"]
    publish_rejection_prevents_commit
    [OF demo_bus_down_managed, where p = 0 and ev = "''updated''" and e = "''bus down''"
      and data = "''B''" and ident = "''1''" and s = "demo_state ([(''1'', ''A'')], [])"]
    c d u w
  show ?thesis by blast
qed

text \<open>
  Claim C10.  A successful \<^verbatim>\<open>update\<close> writes the saved entity to the console exactly once,
  after the save call has resolved and before the publish call; more generally \<^verbatim>\<open>update\<close>
  logs an entity exactly when a save call returned it.  \<^verbatim>\<open>create\<close> and \<^verbatim>\<open>delete\<close> never
  write to the console.
\<close>

theorem update_logs_saved_entity:
  assumes "transactionService svc = transaction tm"
  shows "(list_all succeeded (emitted (update svc ident data) s) \<longrightarrow>
            count_calls is_log (emitted (update svc ident data) s) = 1
          \<and> (\<exists>qr ee p v. emitted (update svc ident data) s =
                [Acquire (Inr qr), GetEntityForUpdateAndEvent qr ident data (Inr ee),
                 FactoryCreate qr (Inr p), Save qr (entity ee) (Inr v), ConsoleLog v,
                 Publish p (event ee) (Inr ()), Commit qr (Inr ())]))
       \<and> (ConsoleLog v \<in> set (emitted (update svc ident data) s) \<longleftrightarrow>
            (\<exists>qr en. Save qr en (Inr v) \<in> set (emitted (update svc ident data) s)))
       \<and> \<not> list_ex is_log (emitted (create svc data) s)
       \<and> \<not> list_ex is_log (emitted (delete svc ident) s)"
proof -
  have "list_all succeeded (emitted (update svc ident data) s) \<longrightarrow>
            count_calls is_log (emitted (update svc ident data) s) = 1
          \<and> (\<exists>qr ee p v. emitted (update svc ident data) s =
                [Acquire (Inr qr), GetEntityForUpdateAndEvent qr ident data (Inr ee),
                 FactoryCreate qr (Inr p), Save qr (entity ee) (Inr v), ConsoleLog v,
                 Publish p (event ee) (Inr ()), Commit qr (Inr ())])"
    using assms
    by (cases rule: update_cases [of svc tm ident data s])
      (simp_all add: log_simps split: sum.splits)
  moreover have "ConsoleLog v \<in> set (emitted (update svc ident data) s) \<longleftrightarrow>
            (\<exists>qr en. Save qr en (Inr v) \<in> set (emitted (update svc ident data) s))"
    using assms by (cases rule: update_cases [of svc tm ident data s]) auto
  moreover have "\<not> list_ex is_log (emitted (create svc data) s)"
    using assms by (cases rule: create_cases [of svc tm data s]) simp_all
  moreover have "\<not> list_ex is_log (emitted (delete svc ident) s)"
    using assms by (cases rule: delete_cases [of svc tm ident s]) simp_all
  ultimately show ?thesis by blast
qed

theorem update_logs_saved_entity_witness:
  "list_all succeeded (emitted (update demo_service ''1'' ''B'') (demo_state ([(''1'', ''A'')], [])))
   \<and> count_calls is_log (emitted (update demo_service ''1'' ''B'') (demo_state ([(''1'', ''A'')], []))) = 1
   \<and> ConsoleLog (Some ''1'', ''B'') \<in> set (emitted (update demo_service ''1'' ''B'') (demo_state ([(''1'', ''A'')], [])))
   \<and> \<not> list_ex is_log (emitted (create demo_service ''A'') (demo_state ([(''1'', ''A'')], [])))
   \<and> \<not> list_ex is_log (emitted (delete demo_service ''1'') (demo_state ([(''1'', ''A'')], [])))"
proof -
  have ok: "list_all succeeded
      (emitted (update demo_service ''1'' ''B'') (demo_state ([(''1'', ''A'')], [])))"
    by (simp add: demo_simps succeeded_def rejection_def)
  have sv: "Save ([(''1'', ''A'')], []) (Some ''1'', ''B'') (Inr (Some ''1'', ''B''))
      \<in> set (emitted (update demo_service ''1'' ''B'') (demo_state ([(''1'', ''A'')], [])))"
    by (simp add: demo_simps)
  from update_logs_saved_entity
    [OF demo_managed, where ident = "''1''" and data = "''B''" and v = "(Some ''1'', ''B'')"
      and s = "demo_state ([(''1'', ''A'')], [])"]
    update_logs_saved_entity
    [OF demo_managed, where ident = "''1''" and data = "''A''" and v = "(Some ''1'', ''B'')"
      and s = "demo_state ([(''1'', ''A'')], [])"]
    ok sv
  show ?thesis by blast
qed

end
